theory Spec2Isabelle
  imports Complex_Main
begin

section \<open>power-usage-analysis.py: time-of-use against fixed-rate billing\<close>

text \<open>
  A shallow embedding of \<^verbatim>\<open>power-usage-analysis.py\<close>. The script reads a usage
  export, sums the \<^verbatim>\<open>USAGE\<close> column over three selections of rows (winter peak
  hours, winter off-peak hours, summer), converts the sums to kWh and prices them
  under two tariffs.

  What the embedding keeps and what it leaves out:
  \<^item> Numbers are exact rationals (\<^typ>\<open>rat\<close>). Python computes on IEEE doubles
    (or on 64-bit integers, when the whole \<^verbatim>\<open>USAGE\<close> column is integral); the
    rounding of each double operation is not part of this model, so every equation
    below is one of exact arithmetic.
  \<^item> The one place where the script divides by a computed number, the three
    percentages, follows numpy's scalar division: dividing by zero does not raise, it
    gives \<^verbatim>\<open>nan\<close> or an infinity.
  \<^item> \<^verbatim>\<open>pd.read_csv\<close> is a library call: the table it returns is an input of the
    model, one record per data row, with every cell present.
  \<^item> \<^verbatim>\<open>DATE\<close> and \<^verbatim>\<open>START TIME\<close> are held as the numbers that the
    directives of the format \<^verbatim>\<open>%m/%d/%Y %H:%M\<close> match. \<^verbatim>\<open>pd.to_datetime\<close>
    raises where these numbers are not a date and a time of day.
  \<^item> The metadata dictionary (lines 126 to 135) and the layout of the printed report
    are not modelled; neither can raise.
\<close>

subsection \<open>Rate constants (lines 14 to 18)\<close>

definition RATE_WINTER_PEAK :: rat where
  "RATE_WINTER_PEAK = 0.34634"

definition RATE_WINTER_OFF_PEAK :: rat where
  "RATE_WINTER_OFF_PEAK = 0.17703"

definition RATE_SUMMER :: rat where
  "RATE_SUMMER = 0.12198"

definition RATE_FIXED :: rat where
  "RATE_FIXED = 0.17703"

subsection \<open>Errors\<close>

text \<open>
  The exceptions that the modelled lines can raise:
  \<^item> \<open>HeaderRowNotFound\<close>: \<^verbatim>\<open>ValueError("Could not find the header row in the CSV file")\<close>,
    line 35;
  \<^item> \<open>TimeDataMismatch i\<close>: the \<^verbatim>\<open>ValueError\<close> of \<^verbatim>\<open>pd.to_datetime\<close> (line 55) at
    the first row, position \<open>i\<close>, whose date and time do not fit the format;
  \<^item> \<open>IndexOutOfBounds\<close>: the \<^verbatim>\<open>IndexError\<close> of \<^verbatim>\<open>df["UNITS"].iloc[0]\<close> (line 89) on
    a table with no rows.
\<close>

datatype error = HeaderRowNotFound | TimeDataMismatch nat | IndexOutOfBounds

subsection \<open>Strings\<close>

text \<open>\<^verbatim>\<open>s.startswith(p)\<close>.\<close>

fun startswith :: "string \<Rightarrow> string \<Rightarrow> bool" where
  "startswith s [] = True"
| "startswith [] (p # ps) = False"
| "startswith (c # cs) (p # ps) = (c = p \<and> startswith cs ps)"

text \<open>\<^verbatim>\<open>sub in s\<close> on strings: \<open>sub\<close> occurs in \<open>s\<close> as a contiguous run of characters.\<close>

fun contains :: "string \<Rightarrow> string \<Rightarrow> bool" where
  "contains sub [] = (sub = [])"
| "contains sub (c # cs) = (startswith (c # cs) sub \<or> contains sub cs)"

text \<open>
  \<^verbatim>\<open>str.isspace\<close> on the characters below 256 (a \<^typ>\<open>char\<close> stands for the code
  point of its number), and \<^verbatim>\<open>s.strip()\<close>.
\<close>

definition isspace :: "char \<Rightarrow> bool" where
  "isspace c = (of_char c \<in> set [9, 10, 11, 12, 13, 28, 29, 30, 31, 32, 133, 160 :: nat])"

definition strip :: "string \<Rightarrow> string" where
  "strip s = rev (dropWhile isspace (rev (dropWhile isspace s)))"

subsection \<open>find_header_row (lines 21 to 35)\<close>

text \<open>
  The file is the list of its lines. The loop over \<^verbatim>\<open>enumerate(file)\<close> returns the
  index of the first line that, stripped, starts with \<^verbatim>\<open>SERVICE,DATE,\<close>; when the
  lines run out it raises.
\<close>

fun find_header_row_from :: "nat \<Rightarrow> string list \<Rightarrow> error + nat" where
  "find_header_row_from i [] = Inl HeaderRowNotFound"
| "find_header_row_from i (line # rest) =
     (if startswith (strip line) ''SERVICE,DATE,'' then Inr i
      else find_header_row_from (Suc i) rest)"

definition find_header_row :: "string list \<Rightarrow> error + nat" where
  "find_header_row file = find_header_row_from 0 file"

subsection \<open>The table and its datetime columns (lines 52 to 61)\<close>

text \<open>
  A row as \<^verbatim>\<open>pd.read_csv\<close> returns it: \<open>DATE\<close> is (month, day, year) and
  \<open>START_TIME\<close> is (hour, minute), as \<^verbatim>\<open>%m/%d/%Y\<close> and \<^verbatim>\<open>%H:%M\<close> read them.
\<close>

record csv_row =
  DATE :: "nat \<times> nat \<times> nat"
  START_TIME :: "nat \<times> nat"
  USAGE :: rat
  UNITS :: string

text \<open>A row of \<^verbatim>\<open>df\<close> after line 61: the columns \<^verbatim>\<open>month\<close> and \<^verbatim>\<open>hour\<close> are added.\<close>

record row = csv_row +
  month :: nat
  hour :: nat

definition is_leap :: "nat \<Rightarrow> bool" where
  "is_leap y = (y mod 4 = 0 \<and> (y mod 400 = 0 \<or> y mod 100 \<noteq> 0))"

definition days_in_month :: "nat \<Rightarrow> nat \<Rightarrow> nat" where
  "days_in_month y m =
     (if m = 2 then (if is_leap y then 29 else 28)
      else if m \<in> set [4, 6, 9, 11] then 30 else 31)"

text \<open>
  Whether \<^verbatim>\<open>pd.to_datetime\<close> accepts the fields. Years are held to 1678 .. 2261, the
  years that a nanosecond \<^verbatim>\<open>Timestamp\<close> covers in full: what pandas does outside them
  depends on its version, and the model refuses them.
\<close>

definition is_datetime :: "nat \<times> nat \<times> nat \<Rightarrow> nat \<times> nat \<Rightarrow> bool" where
  "is_datetime date time =
     (case date of (m, d, y) \<Rightarrow> case time of (H, M) \<Rightarrow>
        1 \<le> m \<and> m \<le> 12 \<and> 1 \<le> d \<and> d \<le> days_in_month y m \<and>
        1678 \<le> y \<and> y \<le> 2261 \<and> H \<le> 23 \<and> M \<le> 59)"

text \<open>
  Lines 55 to 61 on the rows from position \<open>i\<close> on: each row gets the month and the
  hour of its timestamp (\<^verbatim>\<open>.dt.month\<close>, \<^verbatim>\<open>.dt.hour\<close>; the minute is dropped). The
  first row that is no datetime raises for the whole column.
\<close>

fun to_datetime_from :: "nat \<Rightarrow> csv_row list \<Rightarrow> error + row list" where
  "to_datetime_from i [] = Inr []"
| "to_datetime_from i (r # rs) =
     (if is_datetime (DATE r) (START_TIME r) then
        (case to_datetime_from (Suc i) rs of
           Inl e \<Rightarrow> Inl e
         | Inr df \<Rightarrow>
             Inr (\<lparr>DATE = DATE r, START_TIME = START_TIME r, USAGE = USAGE r, UNITS = UNITS r,
                   month = fst (DATE r), hour = fst (START_TIME r)\<rparr> # df))
      else Inl (TimeDataMismatch i))"

definition to_datetime :: "csv_row list \<Rightarrow> error + row list" where
  "to_datetime table = to_datetime_from 0 table"

subsection \<open>The three selections and their sums (lines 63 to 86)\<close>

definition winter_months :: "nat list" where
  "winter_months = [11, 12, 1, 2, 3]"

definition peak_hours :: "nat list" where
  "peak_hours = [7..<11] @ [17..<21]"

definition summer_months :: "nat list" where
  "summer_months = [4, 5, 6, 7, 8, 9, 10]"

text \<open>The boolean mask of each selection, at one row (\<^verbatim>\<open>isin\<close>, \<^verbatim>\<open>&\<close>, \<^verbatim>\<open>~\<close>).\<close>

definition winter_peak_mask :: "row \<Rightarrow> bool" where
  "winter_peak_mask r = (month r \<in> set winter_months \<and> hour r \<in> set peak_hours)"

definition winter_off_peak_mask :: "row \<Rightarrow> bool" where
  "winter_off_peak_mask r = (month r \<in> set winter_months \<and> \<not> hour r \<in> set peak_hours)"

definition summer_mask :: "row \<Rightarrow> bool" where
  "summer_mask r = (month r \<in> set summer_months)"

definition winter_peak :: "row list \<Rightarrow> rat" where
  "winter_peak df = sum_list (map USAGE (filter winter_peak_mask df))"

definition winter_off_peak :: "row list \<Rightarrow> rat" where
  "winter_off_peak df = sum_list (map USAGE (filter winter_off_peak_mask df))"

definition summer_all :: "row list \<Rightarrow> rat" where
  "summer_all df = sum_list (map USAGE (filter summer_mask df))"

definition total_usage :: "row list \<Rightarrow> rat" where
  "total_usage df = sum_list (map USAGE df)"

subsection \<open>Unit conversion (lines 88 to 89)\<close>

text \<open>
  \<^verbatim>\<open>1000 if "Wh" in df["UNITS"].iloc[0] else 1\<close>: the unit of the first row decides,
  by a substring test; \<^verbatim>\<open>iloc[0]\<close> raises on a table with no rows.
\<close>

definition conversion :: "row list \<Rightarrow> error + rat" where
  "conversion df =
     (case df of
        [] \<Rightarrow> Inl IndexOutOfBounds
      | r # _ \<Rightarrow> Inr (if contains ''Wh'' (UNITS r) then 1000 else 1))"

subsection \<open>Percentages (lines 114 to 116)\<close>

text \<open>
  The sums are numpy scalars, and numpy's division by zero gives a value and a
  warning, not an exception: \<^verbatim>\<open>nan\<close> for 0/0, an infinity otherwise.
\<close>

datatype npfloat = Finite rat | PosInf | NegInf | NaN

definition np_div :: "rat \<Rightarrow> rat \<Rightarrow> npfloat" where
  "np_div x y =
     (if y = 0 then (if x = 0 then NaN else if 0 < x then PosInf else NegInf)
      else Finite (x / y))"

fun np_mul :: "npfloat \<Rightarrow> rat \<Rightarrow> npfloat" where
  "np_mul (Finite q) k = Finite (q * k)"
| "np_mul PosInf k = (if k = 0 then NaN else if 0 < k then PosInf else NegInf)"
| "np_mul NegInf k = (if k = 0 then NaN else if 0 < k then NegInf else PosInf)"
| "np_mul NaN k = NaN"

fun isfinite :: "npfloat \<Rightarrow> bool" where
  "isfinite (Finite q) = True"
| "isfinite PosInf = False"
| "isfinite NegInf = False"
| "isfinite NaN = False"

subsection \<open>analyze_power_usage (lines 38 to 136)\<close>

text \<open>
  The \<^verbatim>\<open>results\<close> dictionary, one field per key. The key \<^verbatim>\<open>total_usage\<close> (the
  total in kWh) is the field \<open>total_usage_kwh\<close>, since \<open>total_usage\<close> is, as in the
  source, the sum before conversion.
\<close>

record analysis =
  winter_peak_usage :: rat
  winter_off_peak_usage :: rat
  summer_usage :: rat
  total_usage_kwh :: rat
  winter_peak_percentage :: npfloat
  winter_off_peak_percentage :: npfloat
  summer_percentage :: npfloat
  winter_peak_cost :: rat
  winter_off_peak_cost :: rat
  summer_cost :: rat
  total_time_of_use_cost :: rat
  total_fixed_rate_cost :: rat
  savings :: rat

text \<open>Lines 91 to 124, with the conversion factor of line 89 in hand.\<close>

definition results :: "row list \<Rightarrow> rat \<Rightarrow> analysis" where
  "results df conv =
     (let winter_peak_kwh = winter_peak df / conv;
          winter_off_peak_kwh = winter_off_peak df / conv;
          summer_kwh = summer_all df / conv;
          total_kwh = total_usage df / conv;
          wp_cost = winter_peak_kwh * RATE_WINTER_PEAK;
          wop_cost = winter_off_peak_kwh * RATE_WINTER_OFF_PEAK;
          s_cost = summer_kwh * RATE_SUMMER;
          tou_cost = wp_cost + wop_cost + s_cost;
          fixed_cost = total_kwh * RATE_FIXED
      in \<lparr>winter_peak_usage = winter_peak_kwh,
          winter_off_peak_usage = winter_off_peak_kwh,
          summer_usage = summer_kwh,
          total_usage_kwh = total_kwh,
          winter_peak_percentage = np_mul (np_div (winter_peak df) (total_usage df)) 100,
          winter_off_peak_percentage = np_mul (np_div (winter_off_peak df) (total_usage df)) 100,
          summer_percentage = np_mul (np_div (summer_all df) (total_usage df)) 100,
          winter_peak_cost = wp_cost,
          winter_off_peak_cost = wop_cost,
          summer_cost = s_cost,
          total_time_of_use_cost = tou_cost,
          total_fixed_rate_cost = fixed_cost,
          savings = fixed_cost - tou_cost\<rparr>)"

text \<open>
  Lines 54 to 124 on the table that \<^verbatim>\<open>pd.read_csv\<close> returned: the datetime columns,
  the sums, the conversion factor, the results.
\<close>

definition analyze :: "csv_row list \<Rightarrow> error + analysis" where
  "analyze table =
     (case to_datetime table of
        Inl e \<Rightarrow> Inl e
      | Inr df \<Rightarrow>
          (case conversion df of
             Inl e \<Rightarrow> Inl e
           | Inr conv \<Rightarrow> Inr (results df conv)))"

text \<open>
  The whole function: \<open>file\<close> is the lines of the file at \<^verbatim>\<open>file_path\<close>, \<open>table\<close>
  the table that \<^verbatim>\<open>pd.read_csv(file_path, skiprows=header_row)\<close> returns for it.
\<close>

definition analyze_power_usage :: "string list \<Rightarrow> csv_row list \<Rightarrow> error + analysis" where
  "analyze_power_usage file table =
     (case find_header_row file of
        Inl e \<Rightarrow> Inl e
      | Inr header_row \<Rightarrow> analyze table)"

subsection \<open>main and the script's last lines (lines 190 to 206)\<close>

text \<open>
  What \<^verbatim>\<open>main\<close> prints: the report of \<^verbatim>\<open>format_results\<close>, or the line
  \<^verbatim>\<open>Error processing file: \<close> followed by the text of the exception.
\<close>

datatype stdout = Report analysis | ErrorProcessingFile error

text \<open>
  \<^verbatim>\<open>main\<close> after \<^verbatim>\<open>parse_args\<close>: the value it returns and what it prints.
\<close>

definition main :: "string list \<Rightarrow> csv_row list \<Rightarrow> int \<times> stdout" where
  "main file table =
     (case analyze_power_usage file table of
        Inl e \<Rightarrow> (1, ErrorProcessingFile e)
      | Inr res \<Rightarrow> (0, Report res))"

text \<open>
  Lines 205 to 206 call \<^verbatim>\<open>main()\<close> as a statement: the value it returns goes
  nowhere, the interpreter reaches the end of the script and the process ends with
  status 0.
\<close>

definition exit_status :: "string list \<Rightarrow> csv_row list \<Rightarrow> int" where
  "exit_status file table = (case main file table of (returned, printed) \<Rightarrow> 0)"

subsection \<open>Example inputs\<close>

text \<open>
  A file with one line of account data, the header and three readings, and the table
  of its three readings: 2 at 08:00 and 1 at 14:00 on 15 November 2024, 3 at 12:00 on
  1 June 2024, each with the unit \<^verbatim>\<open>kWh\<close>.
\<close>

definition example_file :: "string list" where
  "example_file =
     [''Name,J. Doe'',
      ''SERVICE,DATE,START TIME,USAGE,UNITS'',
      ''Electric,11/15/2024,08:00,2.0,kWh'',
      ''Electric,11/15/2024,14:00,1.0,kWh'',
      ''Electric,06/01/2024,12:00,3.0,kWh'']"

definition example_table :: "csv_row list" where
  "example_table =
     [\<lparr>DATE = (11, 15, 2024), START_TIME = (8, 0), USAGE = 2, UNITS = ''kWh''\<rparr>,
      \<lparr>DATE = (11, 15, 2024), START_TIME = (14, 0), USAGE = 1, UNITS = ''kWh''\<rparr>,
      \<lparr>DATE = (6, 1, 2024), START_TIME = (12, 0), USAGE = 3, UNITS = ''kWh''\<rparr>]"

text \<open>
  A file with the header and one reading of no usage, at 08:00 on 15 November 2024,
  and its table.
\<close>

definition zero_usage_file :: "string list" where
  "zero_usage_file =
     [''SERVICE,DATE,START TIME,USAGE,UNITS'',
      ''Electric,11/15/2024,08:00,0.0,kWh'']"

definition zero_usage_table :: "csv_row list" where
  "zero_usage_table =
     [\<lparr>DATE = (11, 15, 2024), START_TIME = (8, 0), USAGE = 0, UNITS = ''kWh''\<rparr>]"



section \<open>Properties\<close>

subsection \<open>Evaluation and inversion lemmas\<close>

lemma peak_hours_list: "peak_hours = [7, 8, 9, 10, 17, 18, 19, 20]"
  by (simp add: peak_hours_def upt_rec)

lemmas evaluation =
  analyze_def to_datetime_def is_datetime_def days_in_month_def is_leap_def
  conversion_def results_def winter_peak_def winter_off_peak_def summer_all_def
  total_usage_def winter_peak_mask_def winter_off_peak_mask_def summer_mask_def
  winter_months_def summer_months_def peak_hours_list np_div_def
  RATE_WINTER_PEAK_def RATE_WINTER_OFF_PEAK_def RATE_SUMMER_def RATE_FIXED_def

lemma find_header_row_example: "find_header_row example_file = Inr 1"
  by (simp add: find_header_row_def example_file_def strip_def isspace_def)

lemma analyze_power_usage_Inr:
  "analyze_power_usage file table = Inr res \<Longrightarrow> analyze table = Inr res"
  by (simp add: analyze_power_usage_def split: sum.splits)

lemma analyze_Inr:
  "analyze table = Inr res \<Longrightarrow>
     \<exists>df conv. to_datetime table = Inr df \<and> conversion df = Inr conv \<and> res = results df conv"
  by (auto simp: analyze_def split: sum.splits)

lemma conversion_Inr:
  "conversion df = Inr conv \<Longrightarrow> conv = 1000 \<or> conv = 1"
  by (auto simp: conversion_def split: list.splits if_splits)

lemma to_datetime_from_rows:
  "to_datetime_from i table = Inr df \<Longrightarrow>
     map USAGE df = map USAGE table \<and> map UNITS df = map UNITS table \<and>
     map month df = map (fst \<circ> DATE) table \<and> map hour df = map (fst \<circ> START_TIME) table \<and>
     list_all (\<lambda>r. 1 \<le> month r \<and> month r \<le> 12) df"
proof (induction table arbitrary: i df)
  case Nil
  then show ?case by simp
next
  case (Cons r rs)
  from Cons.prems obtain df' where
    ok: "is_datetime (DATE r) (START_TIME r)" and
    rest: "to_datetime_from (Suc i) rs = Inr df'" and
    df: "df = \<lparr>DATE = DATE r, START_TIME = START_TIME r, USAGE = USAGE r, UNITS = UNITS r,
               month = fst (DATE r), hour = fst (START_TIME r)\<rparr> # df'"
    by (auto split: if_splits sum.splits)
  from ok have "1 \<le> fst (DATE r) \<and> fst (DATE r) \<le> 12"
    by (auto simp: is_datetime_def split: prod.splits)
  with Cons.IH [OF rest] df show ?case by simp
qed

lemma month_in_one_season:
  "1 \<le> m \<Longrightarrow> m \<le> 12 \<Longrightarrow> (m \<in> set winter_months) \<noteq> (m \<in> set summer_months)"
  unfolding winter_months_def summer_months_def by (simp; arith)

lemma one_mask:
  assumes "1 \<le> month r" "month r \<le> 12"
  shows "(winter_peak_mask r \<and> \<not> winter_off_peak_mask r \<and> \<not> summer_mask r) \<or>
         (winter_off_peak_mask r \<and> \<not> winter_peak_mask r \<and> \<not> summer_mask r) \<or>
         (summer_mask r \<and> \<not> winter_peak_mask r \<and> \<not> winter_off_peak_mask r)"
  using month_in_one_season [OF assms]
  by (auto simp: winter_peak_mask_def winter_off_peak_mask_def summer_mask_def)

lemma sums_partition:
  "list_all (\<lambda>r. 1 \<le> month r \<and> month r \<le> 12) df \<Longrightarrow>
     winter_peak df + winter_off_peak df + summer_all df = total_usage df"
proof (induction df)
  case Nil
  then show ?case
    by (simp add: winter_peak_def winter_off_peak_def summer_all_def total_usage_def)
next
  case (Cons r df)
  then have m: "1 \<le> month r" "month r \<le> 12" and rest: "list_all (\<lambda>r. 1 \<le> month r \<and> month r \<le> 12) df"
    by simp_all
  from one_mask [OF m] Cons.IH [OF rest] show ?case
    by (auto simp: winter_peak_def winter_off_peak_def summer_all_def total_usage_def)
qed

lemma analyze_power_usage_example:
  "analyze_power_usage example_file example_table =
     Inr \<lparr>winter_peak_usage = 2 / 1000, winter_off_peak_usage = 1 / 1000,
          summer_usage = 3 / 1000, total_usage_kwh = 6 / 1000,
          winter_peak_percentage = Finite (100 / 3),
          winter_off_peak_percentage = Finite (50 / 3),
          summer_percentage = Finite 50,
          winter_peak_cost = 0.00069268, winter_off_peak_cost = 0.00017703,
          summer_cost = 0.00036594, total_time_of_use_cost = 0.00123565,
          total_fixed_rate_cost = 0.00106218, savings = - 0.00017347\<rparr>"
  by (simp add: analyze_power_usage_def find_header_row_example example_table_def evaluation)

lemma to_datetime_example:
  "to_datetime example_table =
     Inr [\<lparr>DATE = (11, 15, 2024), START_TIME = (8, 0), USAGE = 2, UNITS = ''kWh'',
            month = 11, hour = 8\<rparr>,
          \<lparr>DATE = (11, 15, 2024), START_TIME = (14, 0), USAGE = 1, UNITS = ''kWh'',
            month = 11, hour = 14\<rparr>,
          \<lparr>DATE = (6, 1, 2024), START_TIME = (12, 0), USAGE = 3, UNITS = ''kWh'',
            month = 6, hour = 12\<rparr>]"
  by (simp add: example_table_def evaluation)



subsection \<open>The bucket of a row\<close>

lemma winter_month_iff: "m \<in> set winter_months \<longleftrightarrow> m \<in> {11, 12, 1, 2, 3}"
  by (simp add: winter_months_def)

lemma peak_hour_iff: "h \<in> set peak_hours \<longleftrightarrow> h \<in> {7, 8, 9, 10, 17, 18, 19, 20}"
  by (simp add: peak_hours_list)

lemma summer_month_iff: "m \<in> set summer_months \<longleftrightarrow> m \<in> {4, 5, 6, 7, 8, 9, 10}"
  by (simp add: summer_months_def)

lemma winter_month_not_summer: "m \<in> {11, 12, 1, 2, 3 :: nat} \<Longrightarrow> m \<notin> {4, 5, 6, 7, 8, 9, 10}"
  by auto

lemma summer_month_not_winter: "m \<in> {4, 5, 6, 7, 8, 9, 10 :: nat} \<Longrightarrow> m \<notin> {11, 12, 1, 2, 3}"
  by auto


text \<open>
  C3. The selection that takes a row is a function of the row's month and hour alone:
  month in 11, 12, 1, 2, 3 and hour in 7, 8, 9, 10, 17, 18, 19, 20 is winter peak and
  nothing else; month in 11, 12, 1, 2, 3 and any other hour is winter off-peak and
  nothing else; month in 4 .. 10 is summer and nothing else; and two rows with the same
  month and hour are taken by the same selections.
\<close>

theorem bucket_of_month_and_hour:
  "(month r \<in> {11, 12, 1, 2, 3} \<and> hour r \<in> {7, 8, 9, 10, 17, 18, 19, 20} \<longrightarrow>
      winter_peak_mask r \<and> \<not> winter_off_peak_mask r \<and> \<not> summer_mask r) \<and>
   (month r \<in> {11, 12, 1, 2, 3} \<and> hour r \<notin> {7, 8, 9, 10, 17, 18, 19, 20} \<longrightarrow>
      winter_off_peak_mask r \<and> \<not> winter_peak_mask r \<and> \<not> summer_mask r) \<and>
   (month r \<in> {4, 5, 6, 7, 8, 9, 10} \<longrightarrow>
      summer_mask r \<and> \<not> winter_peak_mask r \<and> \<not> winter_off_peak_mask r) \<and>
   (month r' = month r \<and> hour r' = hour r \<longrightarrow>
      winter_peak_mask r' = winter_peak_mask r \<and>
      winter_off_peak_mask r' = winter_off_peak_mask r \<and>
      summer_mask r' = summer_mask r)"
proof -
  have masks:
    "winter_peak_mask r \<longleftrightarrow>
       month r \<in> {11, 12, 1, 2, 3} \<and> hour r \<in> {7, 8, 9, 10, 17, 18, 19, 20}"
    "winter_off_peak_mask r \<longleftrightarrow>
       month r \<in> {11, 12, 1, 2, 3} \<and> hour r \<notin> {7, 8, 9, 10, 17, 18, 19, 20}"
    "summer_mask r \<longleftrightarrow> month r \<in> {4, 5, 6, 7, 8, 9, 10}"
    unfolding winter_peak_mask_def winter_off_peak_mask_def summer_mask_def
      winter_month_iff peak_hour_iff summer_month_iff by (rule refl)+
  have same: "winter_peak_mask r' = winter_peak_mask r \<and>
      winter_off_peak_mask r' = winter_off_peak_mask r \<and>
      summer_mask r' = summer_mask r" if "month r' = month r \<and> hour r' = hour r"
    using that
    by (simp only: winter_peak_mask_def winter_off_peak_mask_def summer_mask_def)
  from winter_month_not_summer [of "month r"] summer_month_not_winter [of "month r"] same
  show ?thesis unfolding masks by blast
qed

theorem bucket_of_month_and_hour_witness:
  "winter_peak_mask \<lparr>DATE = (11, 15, 2024), START_TIME = (8, 0), USAGE = 2, UNITS = ''kWh'',
                      month = 11, hour = 8\<rparr> \<and>
   winter_off_peak_mask \<lparr>DATE = (11, 15, 2024), START_TIME = (14, 0), USAGE = 1, UNITS = ''kWh'',
                          month = 11, hour = 14\<rparr> \<and>
   summer_mask \<lparr>DATE = (6, 1, 2024), START_TIME = (12, 0), USAGE = 3, UNITS = ''kWh'',
                 month = 6, hour = 12\<rparr>"
proof -
  let ?a = "\<lparr>DATE = (11, 15, 2024), START_TIME = (8, 0), USAGE = 2, UNITS = ''kWh'',
             month = 11, hour = 8\<rparr>"
  let ?b = "\<lparr>DATE = (11, 15, 2024), START_TIME = (14, 0), USAGE = 1, UNITS = ''kWh'',
             month = 11, hour = 14\<rparr>"
  let ?c = "\<lparr>DATE = (6, 1, 2024), START_TIME = (12, 0), USAGE = 3, UNITS = ''kWh'',
             month = 6, hour = 12\<rparr>"
  have a: "month ?a \<in> {11, 12, 1, 2, 3} \<and> hour ?a \<in> {7, 8, 9, 10, 17, 18, 19, 20}"
    by simp
  have b: "month ?b \<in> {11, 12, 1, 2, 3} \<and> hour ?b \<notin> {7, 8, 9, 10, 17, 18, 19, 20}"
    by simp
  have c: "month ?c \<in> {4, 5, 6, 7, 8, 9, 10}"
    by simp
  from a bucket_of_month_and_hour [of ?a ?a] have "winter_peak_mask ?a" by blast
  moreover from b bucket_of_month_and_hour [of ?b ?b] have "winter_off_peak_mask ?b" by blast
  moreover from c bucket_of_month_and_hour [of ?c ?c] have "summer_mask ?c" by blast
  ultimately show ?thesis by blast
qed

subsection \<open>The selections partition the rows\<close>






subsection \<open>Costs and savings\<close>

lemma results_costs:
  "winter_peak_cost (results df conv) = winter_peak_usage (results df conv) * RATE_WINTER_PEAK"
  "winter_off_peak_cost (results df conv) =
     winter_off_peak_usage (results df conv) * RATE_WINTER_OFF_PEAK"
  "summer_cost (results df conv) = summer_usage (results df conv) * RATE_SUMMER"
  "total_time_of_use_cost (results df conv) =
     winter_peak_cost (results df conv) + winter_off_peak_cost (results df conv) +
     summer_cost (results df conv)"
  "total_fixed_rate_cost (results df conv) = total_usage_kwh (results df conv) * RATE_FIXED"
  "savings (results df conv) =
     total_fixed_rate_cost (results df conv) - total_time_of_use_cost (results df conv)"
  by (simp_all add: results_def Let_def)

text \<open>
  C5. In every result of the analysis, the savings are the fixed-rate cost minus the
  time-of-use cost; the time-of-use cost is the sum of the three costs, each the kWh
  of its selection times its rate; the fixed-rate cost is the total kWh times the
  fixed rate. The savings are positive exactly when time-of-use billing is cheaper
  and negative exactly when fixed-rate billing is cheaper.
\<close>

theorem savings_is_fixed_minus_time_of_use:
  assumes "analyze_power_usage file table = Inr res"
  shows "savings res = total_fixed_rate_cost res - total_time_of_use_cost res \<and>
         total_time_of_use_cost res =
           winter_peak_cost res + winter_off_peak_cost res + summer_cost res \<and>
         winter_peak_cost res = winter_peak_usage res * RATE_WINTER_PEAK \<and>
         winter_off_peak_cost res = winter_off_peak_usage res * RATE_WINTER_OFF_PEAK \<and>
         summer_cost res = summer_usage res * RATE_SUMMER \<and>
         total_fixed_rate_cost res = total_usage_kwh res * RATE_FIXED \<and>
         (0 < savings res \<longleftrightarrow> total_time_of_use_cost res < total_fixed_rate_cost res) \<and>
         (savings res < 0 \<longleftrightarrow> total_fixed_rate_cost res < total_time_of_use_cost res)"
proof -
  from analyze_Inr [OF analyze_power_usage_Inr [OF assms]] obtain df conv
    where res: "res = results df conv" by blast
  have diff: "savings res = total_fixed_rate_cost res - total_time_of_use_cost res"
    unfolding res by (rule results_costs(6))
  have signs:
    "0 < savings res \<longleftrightarrow> total_time_of_use_cost res < total_fixed_rate_cost res"
    "savings res < 0 \<longleftrightarrow> total_fixed_rate_cost res < total_time_of_use_cost res"
    unfolding diff by simp_all
  from diff signs results_costs(1-5) [of df conv] show ?thesis
    unfolding res by blast
qed

theorem savings_is_fixed_minus_time_of_use_witness:
  "\<exists>res. analyze_power_usage example_file example_table = Inr res \<and>
     savings res = total_fixed_rate_cost res - total_time_of_use_cost res \<and>
     total_time_of_use_cost res =
       winter_peak_cost res + winter_off_peak_cost res + summer_cost res \<and>
     total_fixed_rate_cost res < total_time_of_use_cost res \<and> savings res < 0"
proof -
  obtain res where res: "analyze_power_usage example_file example_table = Inr res"
    and neg: "savings res < 0"
    using analyze_power_usage_example by simp
  from savings_is_fixed_minus_time_of_use [OF res] neg
  have "savings res = total_fixed_rate_cost res - total_time_of_use_cost res"
    "total_time_of_use_cost res =
       winter_peak_cost res + winter_off_peak_cost res + summer_cost res"
    "total_fixed_rate_cost res < total_time_of_use_cost res"
    by blast+
  with res neg show ?thesis by blast
qed



subsection \<open>The hour of a reading\<close>

lemma to_datetime_one:
  "is_datetime (DATE c) (START_TIME c) \<Longrightarrow>
     to_datetime [c] =
       Inr [\<lparr>DATE = DATE c, START_TIME = START_TIME c, USAGE = USAGE c, UNITS = UNITS c,
             month = fst (DATE c), hour = fst (START_TIME c)\<rparr>]"
  by (simp add: to_datetime_def)

text \<open>
  C7. The hour of a reading is the hour of its timestamp, whatever the minute. In a
  winter month a reading at 10:59 is winter peak, one at 11:00 is winter off-peak, one
  at 16:59 is winter off-peak and one at 17:00 is winter peak: a reading on an hour
  boundary belongs to the hour that starts there.
\<close>

theorem hour_is_minute_truncated:
  assumes "is_datetime (m, d, y) (H, M)" and "m \<in> {11, 12, 1, 2, 3}"
  shows "\<exists>r. to_datetime [\<lparr>DATE = (m, d, y), START_TIME = (H, M), USAGE = u, UNITS = s\<rparr>] = Inr [r] \<and>
           month r = m \<and> hour r = H \<and>
           (H = 10 \<and> M = 59 \<longrightarrow> winter_peak_mask r \<and> \<not> winter_off_peak_mask r) \<and>
           (H = 11 \<and> M = 0 \<longrightarrow> winter_off_peak_mask r \<and> \<not> winter_peak_mask r) \<and>
           (H = 16 \<and> M = 59 \<longrightarrow> winter_off_peak_mask r \<and> \<not> winter_peak_mask r) \<and>
           (H = 17 \<and> M = 0 \<longrightarrow> winter_peak_mask r \<and> \<not> winter_off_peak_mask r)"
proof -
  let ?c = "\<lparr>DATE = (m, d, y), START_TIME = (H, M), USAGE = u, UNITS = s\<rparr>"
  let ?r = "\<lparr>DATE = (m, d, y), START_TIME = (H, M), USAGE = u, UNITS = s,
             month = m, hour = H\<rparr>"
  from assms(1) have parsed: "to_datetime [?c] = Inr [?r]"
    using to_datetime_one [of ?c] by simp
  from assms(2) have winter: "month ?r \<in> set winter_months"
    by (simp add: winter_month_iff)
  have peak: "winter_peak_mask ?r \<and> \<not> winter_off_peak_mask ?r" if "H = 10 \<or> H = 17"
    using that winter
    by (auto simp: winter_peak_mask_def winter_off_peak_mask_def peak_hour_iff)
  have off: "winter_off_peak_mask ?r \<and> \<not> winter_peak_mask ?r" if "H = 11 \<or> H = 16"
    using that winter
    by (auto simp: winter_peak_mask_def winter_off_peak_mask_def peak_hour_iff)
  have sel: "month ?r = m" "hour ?r = H" by simp_all
  from parsed sel peak off have
    "to_datetime [?c] = Inr [?r] \<and> month ?r = m \<and> hour ?r = H \<and>
       (H = 10 \<and> M = 59 \<longrightarrow> winter_peak_mask ?r \<and> \<not> winter_off_peak_mask ?r) \<and>
       (H = 11 \<and> M = 0 \<longrightarrow> winter_off_peak_mask ?r \<and> \<not> winter_peak_mask ?r) \<and>
       (H = 16 \<and> M = 59 \<longrightarrow> winter_off_peak_mask ?r \<and> \<not> winter_peak_mask ?r) \<and>
       (H = 17 \<and> M = 0 \<longrightarrow> winter_peak_mask ?r \<and> \<not> winter_off_peak_mask ?r)"
    by blast
  then show ?thesis by (rule exI [of _ ?r])
qed

theorem hour_is_minute_truncated_witness:
  "(\<exists>r. to_datetime [\<lparr>DATE = (11, 15, 2024), START_TIME = (10, 59), USAGE = 1,
           UNITS = ''kWh''\<rparr>] = Inr [r] \<and> hour r = 10 \<and> winter_peak_mask r) \<and>
   (\<exists>r. to_datetime [\<lparr>DATE = (11, 15, 2024), START_TIME = (11, 0), USAGE = 1,
           UNITS = ''kWh''\<rparr>] = Inr [r] \<and> hour r = 11 \<and> winter_off_peak_mask r) \<and>
   (\<exists>r. to_datetime [\<lparr>DATE = (11, 15, 2024), START_TIME = (16, 59), USAGE = 1,
           UNITS = ''kWh''\<rparr>] = Inr [r] \<and> hour r = 16 \<and> winter_off_peak_mask r) \<and>
   (\<exists>r. to_datetime [\<lparr>DATE = (11, 15, 2024), START_TIME = (17, 0), USAGE = 1,
           UNITS = ''kWh''\<rparr>] = Inr [r] \<and> hour r = 17 \<and> winter_peak_mask r)"
proof -
  have ok: "is_datetime (11, 15, 2024) (10, 59)" "is_datetime (11, 15, 2024) (11, 0)"
    "is_datetime (11, 15, 2024) (16, 59)" "is_datetime (11, 15, 2024) (17, 0)"
    by (simp_all add: is_datetime_def days_in_month_def)
  have winter: "(11::nat) \<in> {11, 12, 1, 2, 3}" by simp
  from hour_is_minute_truncated [OF ok(1) winter, of 1 "''kWh''"]
  have a: "\<exists>r. to_datetime [\<lparr>DATE = (11, 15, 2024), START_TIME = (10, 59), USAGE = 1,
           UNITS = ''kWh''\<rparr>] = Inr [r] \<and> hour r = 10 \<and> winter_peak_mask r"
    by blast
  from hour_is_minute_truncated [OF ok(2) winter, of 1 "''kWh''"]
  have b: "\<exists>r. to_datetime [\<lparr>DATE = (11, 15, 2024), START_TIME = (11, 0), USAGE = 1,
           UNITS = ''kWh''\<rparr>] = Inr [r] \<and> hour r = 11 \<and> winter_off_peak_mask r"
    by blast
  from hour_is_minute_truncated [OF ok(3) winter, of 1 "''kWh''"]
  have c: "\<exists>r. to_datetime [\<lparr>DATE = (11, 15, 2024), START_TIME = (16, 59), USAGE = 1,
           UNITS = ''kWh''\<rparr>] = Inr [r] \<and> hour r = 16 \<and> winter_off_peak_mask r"
    by blast
  from hour_is_minute_truncated [OF ok(4) winter, of 1 "''kWh''"]
  have d: "\<exists>r. to_datetime [\<lparr>DATE = (11, 15, 2024), START_TIME = (17, 0), USAGE = 1,
           UNITS = ''kWh''\<rparr>] = Inr [r] \<and> hour r = 17 \<and> winter_peak_mask r"
    by blast
  from a b c d show ?thesis by (intro conjI)
qed

subsection \<open>Percentages\<close>

lemma results_percentages:
  assumes "total_usage df \<noteq> 0"
  shows "winter_peak_percentage (results df conv) =
           Finite (winter_peak df / total_usage df * 100)"
    and "winter_off_peak_percentage (results df conv) =
           Finite (winter_off_peak df / total_usage df * 100)"
    and "summer_percentage (results df conv) =
           Finite (summer_all df / total_usage df * 100)"
  using assms by (simp_all add: results_def Let_def np_div_def)

lemma shares_sum:
  fixes a b c t :: rat
  assumes "a + b + c = t" "t \<noteq> 0"
  shows "a / t * 100 + b / t * 100 + c / t * 100 = 100"
proof -
  have "a / t * 100 + b / t * 100 + c / t * 100 = (a + b + c) / t * 100"
    by (simp add: add_divide_distrib distrib_right)
  also have "\<dots> = 100" using assms by simp
  finally show ?thesis .
qed

text \<open>
  C8. When the total usage is not zero, the percentage of each selection is its sum
  before conversion, divided by the total before conversion, times 100, and the three
  percentages add up to 100 (in exact arithmetic).
\<close>

theorem percentages_of_total:
  assumes "analyze_power_usage file table = Inr res"
    and "to_datetime table = Inr df"
    and "total_usage df \<noteq> 0"
  shows "winter_peak_percentage res = Finite (winter_peak df / total_usage df * 100) \<and>
         winter_off_peak_percentage res =
           Finite (winter_off_peak df / total_usage df * 100) \<and>
         summer_percentage res = Finite (summer_all df / total_usage df * 100) \<and>
         winter_peak df / total_usage df * 100 + winter_off_peak df / total_usage df * 100 +
           summer_all df / total_usage df * 100 = 100"
proof -
  from analyze_Inr [OF analyze_power_usage_Inr [OF assms(1)]] assms(2) obtain conv
    where res: "res = results df conv" by auto
  from assms(2) have "list_all (\<lambda>r. 1 \<le> month r \<and> month r \<le> 12) df"
    using to_datetime_from_rows [of 0 table df] by (simp add: to_datetime_def)
  then have "winter_peak df + winter_off_peak df + summer_all df = total_usage df"
    by (rule sums_partition)
  then have "winter_peak df / total_usage df * 100 + winter_off_peak df / total_usage df * 100 +
      summer_all df / total_usage df * 100 = 100"
    using assms(3) by (rule shares_sum)
  with results_percentages [OF assms(3), of conv] show ?thesis
    unfolding res by blast
qed

theorem percentages_of_total_witness:
  "\<exists>res df. analyze_power_usage example_file example_table = Inr res \<and>
     to_datetime example_table = Inr df \<and> total_usage df = 6 \<and>
     winter_peak_percentage res = Finite (winter_peak df / total_usage df * 100) \<and>
     winter_off_peak_percentage res = Finite (winter_off_peak df / total_usage df * 100) \<and>
     summer_percentage res = Finite (summer_all df / total_usage df * 100) \<and>
     winter_peak df / total_usage df * 100 + winter_off_peak df / total_usage df * 100 +
       summer_all df / total_usage df * 100 = 100"
proof -
  obtain res where res: "analyze_power_usage example_file example_table = Inr res"
    using analyze_power_usage_example by simp
  obtain df where df: "to_datetime example_table = Inr df" and total: "total_usage df = 6"
    using to_datetime_example by (simp add: total_usage_def)
  from total have "total_usage df \<noteq> 0" by simp
  from percentages_of_total [OF res df this] res df total show ?thesis by blast
qed

subsection \<open>No usage at all\<close>

lemma find_header_row_zero_usage: "find_header_row zero_usage_file = Inr 0"
  by (simp add: find_header_row_def zero_usage_file_def strip_def isspace_def)

lemma results_percentages_zero:
  assumes "total_usage df = 0"
  shows "\<not> isfinite (winter_peak_percentage (results df conv))"
    and "\<not> isfinite (winter_off_peak_percentage (results df conv))"
    and "\<not> isfinite (summer_percentage (results df conv))"
  using assms by (simp_all add: results_def Let_def np_div_def)

text \<open>
  C2, as stated: a table whose total usage is zero makes the analysis fail with an
  error and never gives a percentage that is no number. It does not hold: for one
  reading of no usage the analysis returns, and its three percentages are
  \<^verbatim>\<open>nan\<close>.
\<close>

theorem zero_total_usage_counterexample:
  "analyze_power_usage zero_usage_file zero_usage_table =
     Inr \<lparr>winter_peak_usage = 0, winter_off_peak_usage = 0, summer_usage = 0,
          total_usage_kwh = 0, winter_peak_percentage = NaN,
          winter_off_peak_percentage = NaN, summer_percentage = NaN,
          winter_peak_cost = 0, winter_off_peak_cost = 0, summer_cost = 0,
          total_time_of_use_cost = 0, total_fixed_rate_cost = 0, savings = 0\<rparr>"
  by (simp add: analyze_power_usage_def find_header_row_zero_usage zero_usage_table_def
      evaluation)

text \<open>
  C2, amended: on a table with no rows the analysis raises the \<^verbatim>\<open>IndexError\<close> of
  line 89. On a table with rows whose timestamps are read and whose total usage is
  zero it raises nothing: it returns a result, and none of the three percentages in it
  is a finite number (each is \<^verbatim>\<open>nan\<close> or an infinity).
\<close>

theorem zero_total_usage:
  "(find_header_row file = Inr h \<longrightarrow> analyze_power_usage file [] = Inl IndexOutOfBounds) \<and>
   (find_header_row file = Inr h \<and> to_datetime table = Inr df \<and> table \<noteq> [] \<and>
    sum_list (map USAGE table) = 0 \<longrightarrow>
      (\<exists>res. analyze_power_usage file table = Inr res \<and>
         \<not> isfinite (winter_peak_percentage res) \<and>
         \<not> isfinite (winter_off_peak_percentage res) \<and>
         \<not> isfinite (summer_percentage res)))"
proof (intro conjI impI)
  assume "find_header_row file = Inr h"
  then show "analyze_power_usage file [] = Inl IndexOutOfBounds"
    by (simp add: analyze_power_usage_def analyze_def to_datetime_def conversion_def)
next
  assume a: "find_header_row file = Inr h \<and> to_datetime table = Inr df \<and> table \<noteq> [] \<and>
    sum_list (map USAGE table) = 0"
  then have rows: "map USAGE df = map USAGE table"
    using to_datetime_from_rows [of 0 table df] by (simp add: to_datetime_def)
  with a have zero: "total_usage df = 0"
    by (simp add: total_usage_def)
  from rows a have "df \<noteq> []" by auto
  then obtain conv where conv: "conversion df = Inr conv"
    by (cases df) (simp_all add: conversion_def)
  with a have run: "analyze_power_usage file table = Inr (results df conv)"
    by (simp add: analyze_power_usage_def analyze_def)
  from run results_percentages_zero [OF zero, of conv]
  show "\<exists>res. analyze_power_usage file table = Inr res \<and>
         \<not> isfinite (winter_peak_percentage res) \<and>
         \<not> isfinite (winter_off_peak_percentage res) \<and>
         \<not> isfinite (summer_percentage res)"
    by blast
qed

theorem zero_total_usage_witness:
  "analyze_power_usage zero_usage_file [] = Inl IndexOutOfBounds \<and>
   (\<exists>res. analyze_power_usage zero_usage_file zero_usage_table = Inr res \<and>
      \<not> isfinite (winter_peak_percentage res) \<and>
      \<not> isfinite (winter_off_peak_percentage res) \<and>
      \<not> isfinite (summer_percentage res))"
proof -
  have h: "find_header_row zero_usage_file = Inr 0"
    by (rule find_header_row_zero_usage)
  obtain df where df: "to_datetime zero_usage_table = Inr df"
    by (simp add: zero_usage_table_def to_datetime_def is_datetime_def days_in_month_def)
  have ne: "zero_usage_table \<noteq> []" and zero: "sum_list (map USAGE zero_usage_table) = 0"
    by (simp_all add: zero_usage_table_def)
  from zero_total_usage [of zero_usage_file 0 zero_usage_table df] h df ne zero
  show ?thesis by blast
qed

subsection \<open>The unit of the first row\<close>

lemma conversion_first_row:
  "conversion (r # df) = Inr (if contains ''Wh'' (UNITS r) then 1000 else 1)"
  by (simp add: conversion_def)

lemma results_usages:
  "winter_peak_usage (results df conv) = winter_peak df / conv"
  "winter_off_peak_usage (results df conv) = winter_off_peak df / conv"
  "summer_usage (results df conv) = summer_all df / conv"
  "total_usage_kwh (results df conv) = total_usage df / conv"
  by (simp_all add: results_def Let_def)

text \<open>
  C1. The comment of line 88 has the sums divided by 1000 when the unit is Wh, and left
  alone otherwise. The test of line 89 is a substring test, and \<^verbatim>\<open>Wh\<close> is a
  substring of \<^verbatim>\<open>kWh\<close>: a first row with the unit \<^verbatim>\<open>kWh\<close> has every sum
  divided by 1000 too, so the example's 6 kWh come out as 0.006 kWh.
\<close>

theorem kWh_unit_divides_by_1000:
  "contains ''Wh'' ''kWh'' \<and>
   conversion [\<lparr>DATE = (11, 15, 2024), START_TIME = (8, 0), USAGE = 2, UNITS = ''kWh'',
                month = 11, hour = 8\<rparr>] = Inr 1000 \<and>
   map_sum id total_usage_kwh (analyze_power_usage example_file example_table) = Inr (6 / 1000)"
  by (simp add: conversion_def analyze_power_usage_example)

text \<open>
  C6. The example of three readings in kWh: the percentages are as expected, and
  every usage and every cost is a thousandth of the expected figure (0.002 for 2.0,
  0.00069268 for 0.69268, -0.00017347 for -0.17347), by the division of C1.
\<close>

theorem example_scenario_in_kWh:
  "analyze_power_usage example_file example_table =
     Inr \<lparr>winter_peak_usage = 0.002, winter_off_peak_usage = 0.001,
          summer_usage = 0.003, total_usage_kwh = 0.006,
          winter_peak_percentage = Finite (100 / 3),
          winter_off_peak_percentage = Finite (50 / 3),
          summer_percentage = Finite 50,
          winter_peak_cost = 0.00069268, winter_off_peak_cost = 0.00017703,
          summer_cost = 0.00036594, total_time_of_use_cost = 0.00123565,
          total_fixed_rate_cost = 0.00106218, savings = - 0.00017347\<rparr>"
  by (simp add: analyze_power_usage_example)

subsection \<open>The exit status\<close>

lemma exit_status_always_0: "exit_status file table = 0"
  by (simp add: exit_status_def split: prod.splits)

text \<open>
  C9. On a file with no header row \<^verbatim>\<open>main\<close> prints the error line and returns 1,
  and the process still ends with status 0: line 206 drops the value returned.
\<close>

theorem exit_status_after_error:
  "main [] [] = (1, ErrorProcessingFile HeaderRowNotFound) \<and> exit_status [] [] = 0"
  by (simp add: main_def exit_status_def analyze_power_usage_def find_header_row_def)

end
